theory Spec2Isabelle
  imports Complex_Main
begin

section \<open>The swipe controller of \<^verbatim>\<open>src/swipe/Swipe.tsx\<close>\<close>

text \<open>
  The component keeps a reactive \<^verbatim>\<open>state\<close> object, reads its \<^verbatim>\<open>props\<close>, the list of
  registered child panels and the signals of the touch tracker, and mutates the state
  from event handlers. Here every handler is a function from the state before to the
  state after.

  Numbers. Panel indices, paces and millisecond timestamps are integers (\<open>int\<close>); pixel
  quantities are exact rationals (\<open>rat\<close>), so the rounding of IEEE doubles is not part of
  the model, and there is a single zero. JavaScript does not fail on a division by zero
  or on \<^verbatim>\<open>x % 0\<close>: it yields \<^verbatim>\<open>Infinity\<close>, \<^verbatim>\<open>-Infinity\<close> or \<^verbatim>\<open>NaN\<close> and goes on. The paces and
  the bound \<^verbatim>\<open>maxCount\<close>, which can take these values, have the type \<open>jsint\<close> below, and
  the comparisons and clamps on them follow \<^verbatim>\<open>Math.max\<close> and \<^verbatim>\<open>Math.min\<close>. The state record holds
  finite numbers only: a handler returns \<open>None\<close> exactly when the code would store
  \<^verbatim>\<open>NaN\<close> or an infinity in the state, and \<open>Some\<close> of the new state otherwise.
\<close>

subsection \<open>Data\<close>

text \<open>The \<^verbatim>\<open>direction\<close> signal of the touch tracker: \<^verbatim>\<open>'horizontal'\<close>, \<^verbatim>\<open>'vertical'\<close> or \<^verbatim>\<open>''\<close>.\<close>

datatype direction = Horizontal | Vertical | NoDirection

text \<open>
  The signals of \<^verbatim>\<open>useTouch()\<close>, an external collaborator: the handlers below take the
  values it holds after it has processed the current event.
\<close>

record touch =
  deltaX :: rat
  deltaY :: rat
  offsetX :: rat
  offsetY :: rat
  direction :: direction

text \<open>
  The props the controller reads. \<^verbatim>\<open>width\<close> and \<^verbatim>\<open>height\<close> are optional overrides
  (\<open>None\<close> when the prop is not given).
\<close>

record props =
  loop :: bool
  vertical :: bool
  touchable :: bool
  width_prop :: "rat option"
  height_prop :: "rat option"
  autoplay :: rat
  initialSwipe :: int

record rect =
  rect_width :: rat
  rect_height :: rat

text \<open>
  The reactive \<^verbatim>\<open>state\<close> object, together with what else the handlers mutate:
  \<open>children\<close> holds, for each registered panel in order, the offset last given to its
  \<^verbatim>\<open>setOffset\<close>; \<open>emitted\<close> is the trace of payloads of \<^verbatim>\<open>emit('change', ...)\<close>, oldest
  first; \<open>autoplayTimer\<close> tells whether the autoplay timeout is armed; \<open>touchStartTime\<close>
  is the variable of that name.
\<close>

record state =
  rect :: "rect option"
  width :: rat
  height :: rat
  offset :: rat
  active :: int
  swiping :: bool
  children :: "rat list"
  emitted :: "int list"
  autoplayTimer :: bool
  touchStartTime :: int

subsection \<open>Helpers from outside the file\<close>

text \<open>
  Modelled from the spec: \<^verbatim>\<open>range\<close> is imported from \<^verbatim>\<open>'../utils'\<close>, which is not among
  the sources. The spec calls \<^verbatim>\<open>range(num, min, max)\<close> clamping \<open>num\<close> into \<open>[min, max]\<close>;
  the lower bound is applied first, then the upper one.
\<close>

definition range_num :: "'a::linorder \<Rightarrow> 'a \<Rightarrow> 'a \<Rightarrow> 'a" where
  "range_num num lo hi = min (max num lo) hi"

text \<open>
  An integer-valued JavaScript number, or one of the three values that are not finite.
\<close>

datatype jsint = Fin int | PosInf | NegInf | NaN

text \<open>Truthiness of a number: every number but 0 and \<^verbatim>\<open>NaN\<close>.\<close>

definition truthy :: "jsint \<Rightarrow> bool" where
  "truthy x \<longleftrightarrow> x \<noteq> Fin 0 \<and> x \<noteq> NaN"

text \<open>\<^verbatim>\<open>a + x\<close> and \<^verbatim>\<open>x - a\<close> for a finite integer \<open>a\<close>.\<close>

fun js_plus :: "int \<Rightarrow> jsint \<Rightarrow> jsint" where
  "js_plus a (Fin b) = Fin (a + b)"
| "js_plus a PosInf = PosInf"
| "js_plus a NegInf = NegInf"
| "js_plus a NaN = NaN"

fun js_minus :: "jsint \<Rightarrow> int \<Rightarrow> jsint" where
  "js_minus (Fin b) a = Fin (b - a)"
| "js_minus PosInf a = PosInf"
| "js_minus NegInf a = NegInf"
| "js_minus NaN a = NaN"

text \<open>
  The order of the numbers other than \<^verbatim>\<open>NaN\<close>, and \<^verbatim>\<open>Math.max\<close> and \<^verbatim>\<open>Math.min\<close>, which
  yield \<^verbatim>\<open>NaN\<close> as soon as one argument is \<^verbatim>\<open>NaN\<close>.
\<close>

fun js_le :: "jsint \<Rightarrow> jsint \<Rightarrow> bool" where
  "js_le (Fin a) (Fin b) = (a \<le> b)"
| "js_le NegInf y = True"
| "js_le x PosInf = True"
| "js_le x y = False"

definition js_max :: "jsint \<Rightarrow> jsint \<Rightarrow> jsint" where
  "js_max x y = (if x = NaN \<or> y = NaN then NaN else if js_le x y then y else x)"

definition js_min :: "jsint \<Rightarrow> jsint \<Rightarrow> jsint" where
  "js_min x y = (if x = NaN \<or> y = NaN then NaN else if js_le x y then x else y)"

text \<open>
  Modelled from the spec: the same \<^verbatim>\<open>range\<close> of \<^verbatim>\<open>'../utils'\<close>, on numbers that need not be
  finite.
\<close>

definition range_js :: "jsint \<Rightarrow> jsint \<Rightarrow> jsint \<Rightarrow> jsint" where
  "range_js num lo hi = js_min (js_max num lo) hi"

text \<open>
  JavaScript's \<^verbatim>\<open>a % b\<close> on integers: the remainder of the division truncated towards
  zero, with the sign of the dividend; \<^verbatim>\<open>NaN\<close> when \<open>b\<close> is zero.
\<close>

definition js_rem :: "int \<Rightarrow> int \<Rightarrow> int option" where
  "js_rem a b = (if b = 0 then None else Some (sgn a * (\<bar>a\<bar> mod \<bar>b\<bar>)))"

subsection \<open>Computed values\<close>

definition count :: "state \<Rightarrow> int" where
  "count s = int (length (children s))"

definition size_swipe :: "props \<Rightarrow> state \<Rightarrow> rat" where
  "size_swipe p s = (if vertical p then height s else width s)"

definition delta :: "props \<Rightarrow> touch \<Rightarrow> rat" where
  "delta p t = (if vertical p then deltaY t else deltaX t)"

definition minOffset :: "props \<Rightarrow> state \<Rightarrow> rat" where
  "minOffset p s =
     (case rect s of
        Some r \<Rightarrow>
          (let base = (if vertical p then rect_height r else rect_width r)
           in base - size_swipe p s * of_int (count s))
      | None \<Rightarrow> 0)"

text \<open>
  \<^verbatim>\<open>Math.ceil(Math.abs(minOffset) / size)\<close>. With a zero size the quotient is \<^verbatim>\<open>NaN\<close> for a
  zero \<^verbatim>\<open>minOffset\<close> and \<^verbatim>\<open>Infinity\<close> otherwise, and \<^verbatim>\<open>Math.ceil\<close> keeps both.
\<close>

definition maxCount :: "props \<Rightarrow> state \<Rightarrow> jsint" where
  "maxCount p s =
     (if size_swipe p s = 0 then (if minOffset p s = 0 then NaN else PosInf)
      else Fin \<lceil>\<bar>minOffset p s\<bar> / size_swipe p s\<rceil>)"

definition trackSize :: "props \<Rightarrow> state \<Rightarrow> rat" where
  "trackSize p s = of_int (count s) * size_swipe p s"

definition activeIndicator :: "state \<Rightarrow> int option" where
  "activeIndicator s = js_rem (active s + count s) (count s)"

definition isCorrectDirection :: "props \<Rightarrow> touch \<Rightarrow> bool" where
  "isCorrectDirection p t =
     (let expect = (if vertical p then Vertical else Horizontal)
      in direction t = expect)"

subsection \<open>The position resolver\<close>

definition getTargetActive :: "props \<Rightarrow> state \<Rightarrow> jsint \<Rightarrow> jsint" where
  "getTargetActive p s pace =
     (if truthy pace then
        (if loop p then range_js (js_plus (active s) pace) (Fin (- 1)) (Fin (count s))
         else range_js (js_plus (active s) pace) (Fin 0) (maxCount p s))
      else Fin (active s))"

definition getTargetOffset :: "props \<Rightarrow> state \<Rightarrow> int \<Rightarrow> rat \<Rightarrow> rat" where
  "getTargetOffset p s targetActive off =
     (let currentPosition = of_int targetActive * size_swipe p s;
          currentPosition = (if \<not> loop p then min currentPosition (- minOffset p s)
                             else currentPosition);
          targetOffset = off - currentPosition
      in if \<not> loop p then range_num targetOffset (minOffset p s) 0 else targetOffset)"

subsection \<open>Moving\<close>

text \<open>
  The block of \<^verbatim>\<open>move\<close> headed ``auto move first and last swipe in loop mode'': the
  panel offsets after its two \<^verbatim>\<open>setOffset\<close> calls, for the target offset just computed.
  \<^verbatim>\<open>children[0]\<close> and \<^verbatim>\<open>children[count - 1]\<close> are undefined, hence falsy, exactly when
  there is no panel.
\<close>

definition loop_edge_offsets :: "props \<Rightarrow> state \<Rightarrow> rat \<Rightarrow> rat list" where
  "loop_edge_offsets p s targetOffset =
     (if loop p then
        (let ch0 = children s;
             ch1 = (if ch0 \<noteq> [] \<and> targetOffset \<noteq> minOffset p s
                    then (let outRightBound = targetOffset < minOffset p s
                          in ch0[0 := (if outRightBound then trackSize p s else 0)])
                    else ch0)
         in if ch1 \<noteq> [] \<and> targetOffset \<noteq> 0
            then (let outLeftBound = targetOffset > 0
                  in ch1[nat (count s - 1) := (if outLeftBound then - trackSize p s else 0)])
            else ch1)
      else children s)"

text \<open>\<^verbatim>\<open>emit('change', activeIndicator.value)\<close>, read in the state it is given.\<close>

definition emit_change :: "state \<Rightarrow> state option" where
  "emit_change s =
     (case activeIndicator s of
        None \<Rightarrow> None
      | Some i \<Rightarrow> Some (s\<lparr>emitted := emitted s @ [i]\<rparr>))"

text \<open>
  \<^verbatim>\<open>move({ pace, offset, emitChange })\<close>. The callers that leave an argument out get the
  defaults \<open>pace = 0\<close>, \<open>offset = 0\<close> and a false \<open>emitChange\<close>, written out at each call.
  A target index that is not finite would be stored in \<^verbatim>\<open>state.active\<close> (and makes the
  offset \<^verbatim>\<open>NaN\<close>, or the index itself is \<^verbatim>\<open>NaN\<close>): the result is \<open>None\<close>.
\<close>

definition move :: "props \<Rightarrow> jsint \<Rightarrow> rat \<Rightarrow> bool \<Rightarrow> state \<Rightarrow> state option" where
  "move p pace off emitChange s =
     (if count s \<le> 1 then Some s
      else
        (case getTargetActive p s pace of
           Fin targetActive \<Rightarrow>
            (let targetOffset = getTargetOffset p s targetActive off;
                 s1 = s\<lparr>children := loop_edge_offsets p s targetOffset\<rparr>;
                 s2 = s1\<lparr>active := targetActive, offset := targetOffset\<rparr>
             in if emitChange \<and> targetActive \<noteq> active s then emit_change s2
                else Some s2)
         | _ \<Rightarrow> None))"

definition correctPosition :: "props \<Rightarrow> state \<Rightarrow> state option" where
  "correctPosition p s =
     (let s1 = s\<lparr>swiping := True\<rparr>
      in if active s1 \<le> - 1 then move p (Fin (count s1)) 0 False s1
         else if active s1 \<ge> count s1 then move p (Fin (- count s1)) 0 False s1
         else Some s1)"

text \<open>
  \<^verbatim>\<open>prev\<close> and \<^verbatim>\<open>next\<close>: the position correction, then the callback that \<^verbatim>\<open>doubleRaf\<close>
  runs two frames later, taken here with no other event in between.
\<close>

definition prev_swipe :: "props \<Rightarrow> state \<Rightarrow> state option" where
  "prev_swipe p s =
     (case correctPosition p s of
        None \<Rightarrow> None
      | Some s1 \<Rightarrow> move p (Fin (- 1)) 0 True (s1\<lparr>swiping := False\<rparr>))"

definition next_swipe :: "props \<Rightarrow> state \<Rightarrow> state option" where
  "next_swipe p s =
     (case correctPosition p s of
        None \<Rightarrow> None
      | Some s1 \<Rightarrow> move p (Fin 1) 0 True (s1\<lparr>swiping := False\<rparr>))"

subsection \<open>Autoplay and initialisation\<close>

definition stopAutoplay :: "state \<Rightarrow> state" where
  "stopAutoplay s = s\<lparr>autoplayTimer := False\<rparr>"

definition autoplay_arm :: "props \<Rightarrow> state \<Rightarrow> state" where
  "autoplay_arm p s =
     (if autoplay p > 0 \<and> count s > 1 then (stopAutoplay s)\<lparr>autoplayTimer := True\<rparr>
      else s)"

text \<open>
  \<^verbatim>\<open>initialize(active)\<close>. \<open>measured\<close> is what the root element gives: \<open>None\<close> when there
  is no root element or it is hidden, else its \<^verbatim>\<open>offsetWidth\<close> and \<^verbatim>\<open>offsetHeight\<close>.
\<close>

definition initialize :: "props \<Rightarrow> rect option \<Rightarrow> int \<Rightarrow> state \<Rightarrow> state" where
  "initialize p measured act s =
     (case measured of
        None \<Rightarrow> s
      | Some r \<Rightarrow>
         (let s0 = stopAutoplay s;
              act' = (if count s0 \<noteq> 0 then min (count s0 - 1) act else act);
              s1 = s0\<lparr>rect := Some r, swiping := True, active := act',
                      width := (case width_prop p of Some w \<Rightarrow> w | None \<Rightarrow> rect_width r),
                      height := (case height_prop p of Some h \<Rightarrow> h | None \<Rightarrow> rect_height r)\<rparr>;
              s2 = s1\<lparr>offset := getTargetOffset p s1 act' 0\<rparr>;
              s3 = s2\<lparr>children := map (\<lambda>_. 0) (children s2)\<rparr>
          in autoplay_arm p s3))"

text \<open>\<^verbatim>\<open>onMounted(initialize)\<close>: the requested index defaults to the \<^verbatim>\<open>initialSwipe\<close> prop.\<close>

definition onMounted :: "props \<Rightarrow> rect option \<Rightarrow> state \<Rightarrow> state" where
  "onMounted p measured s = initialize p measured (initialSwipe p) s"

definition resize :: "props \<Rightarrow> rect option \<Rightarrow> state \<Rightarrow> state" where
  "resize p measured s = initialize p measured (active s) s"

subsection \<open>Touch handlers\<close>

definition onTouchStart :: "props \<Rightarrow> int \<Rightarrow> state \<Rightarrow> state option" where
  "onTouchStart p now s =
     (if \<not> touchable p then Some s
      else correctPosition p (stopAutoplay (s\<lparr>touchStartTime := now\<rparr>)))"


text \<open>
  \<^verbatim>\<open>Math.abs(delta / duration) > 0.25\<close>. With a zero duration the quotient is \<^verbatim>\<open>Infinity\<close>
  for a nonzero delta, which exceeds 0.25, and \<^verbatim>\<open>NaN\<close> for a zero delta, which does not.
\<close>

definition speed_exceeds :: "rat \<Rightarrow> int \<Rightarrow> bool" where
  "speed_exceeds d duration =
     (if duration = 0 then d \<noteq> 0 else \<bar>d / of_int duration\<bar> > 1 / 4)"

text \<open>
  The pace of a committed gesture without loop:
  \<^verbatim>\<open>-Math[delta > 0 ? 'ceil' : 'floor'](delta / size)\<close>. With a zero size the quotient is
  \<^verbatim>\<open>Infinity\<close>, \<^verbatim>\<open>-Infinity\<close> or \<^verbatim>\<open>NaN\<close> by the sign of \<open>delta\<close>; rounding keeps it and the
  negation swaps the infinities.
\<close>

definition flick_pace :: "rat \<Rightarrow> rat \<Rightarrow> jsint" where
  "flick_pace d sz =
     (if sz = 0 then (if d > 0 then NegInf else if d < 0 then PosInf else NaN)
      else Fin (- (if d > 0 then \<lceil>d / sz\<rceil> else \<lfloor>d / sz\<rfloor>)))"

definition onTouchEnd :: "props \<Rightarrow> touch \<Rightarrow> int \<Rightarrow> state \<Rightarrow> state option" where
  "onTouchEnd p t now s =
     (if \<not> touchable p \<or> \<not> swiping s then Some s
      else
        (let duration = now - touchStartTime s;
             shouldSwipe = (speed_exceeds (delta p t) duration
                            \<or> \<bar>delta p t\<bar> > size_swipe p s / 2);
             moved =
               (if shouldSwipe \<and> isCorrectDirection p t then
                  (let off = (if vertical p then offsetY t else offsetX t);
                       pace = (if loop p
                               then Fin (if off > 0 then (if delta p t > 0 then - 1 else 1)
                                         else 0)
                               else flick_pace (delta p t) (size_swipe p s))
                   in move p pace 0 True s)
                else if delta p t \<noteq> 0 then move p (Fin 0) 0 False s
                else Some s)
         in case moved of
              None \<Rightarrow> None
            | Some s1 \<Rightarrow> Some (autoplay_arm p (s1\<lparr>swiping := False\<rparr>))))"

subsection \<open>Programmatic navigation\<close>

text \<open>
  The index \<^verbatim>\<open>swipeTo\<close> resolves inside its \<^verbatim>\<open>doubleRaf\<close> callback; \<open>None\<close> stands for the
  \<^verbatim>\<open>NaN\<close> of \<^verbatim>\<open>index % 0\<close>, which makes the pace \<^verbatim>\<open>NaN\<close> as well.
\<close>

definition targetIndex :: "props \<Rightarrow> int \<Rightarrow> state \<Rightarrow> int option" where
  "targetIndex p index s =
     (if loop p \<and> index = count s then Some (if active s = 0 then 0 else index)
      else js_rem index (count s))"

text \<open>
  \<^verbatim>\<open>swipeTo(index, { immediate })\<close>: the position correction, then the callback two frames
  later, taken here with no other event and no other call in between. With \<open>immediate\<close>
  the callback leaves \<open>swiping\<close> as it is and a second pair of frames clears it
  (\<open>swipeTo_settle\<close>).
\<close>

definition swipeTo :: "props \<Rightarrow> int \<Rightarrow> bool \<Rightarrow> state \<Rightarrow> state option" where
  "swipeTo p index immediate s =
     (case correctPosition p s of
        None \<Rightarrow> None
      | Some s1 \<Rightarrow>
         (let tgt = targetIndex p index s1;
              s2 = (if immediate then s1 else s1\<lparr>swiping := False\<rparr>);
              pace = (case tgt of None \<Rightarrow> NaN | Some t \<Rightarrow> Fin (t - active s2))
          in move p pace 0 True s2))"

definition swipeTo_settle :: "state \<Rightarrow> state" where
  "swipeTo_settle s = s\<lparr>swiping := False\<rparr>"

subsection \<open>The words of the specification\<close>

text \<open>
  ``\<open>x\<close> clamped into \<open>[lo, hi]\<close>'', as the specification uses it: a value below the
  interval becomes \<open>lo\<close>, a value above it becomes \<open>hi\<close>, any other stays.
\<close>

definition clamp_into :: "int \<Rightarrow> int \<Rightarrow> int \<Rightarrow> int" where
  "clamp_into lo hi x = (if x < lo then lo else if hi < x then hi else x)"

text \<open>The sign of a pixel quantity, as an integer.\<close>

definition sign_int :: "rat \<Rightarrow> int" where
  "sign_int x = (if 0 < x then 1 else if x < 0 then - 1 else 0)"

text \<open>
  A gesture commits when its direction matches the configured orientation and either
  \<open>|delta / elapsedMs| > 0.25\<close> or \<open>|delta| > mainAxisSize / 2\<close>.
\<close>

definition gesture_commits :: "props \<Rightarrow> touch \<Rightarrow> int \<Rightarrow> state \<Rightarrow> bool" where
  "gesture_commits p t elapsed s \<longleftrightarrow>
     direction t = (if vertical p then Vertical else Horizontal)
     \<and> (\<bar>delta p t / of_int elapsed\<bar> > 1 / 4 \<or> \<bar>delta p t\<bar> > size_swipe p s / 2)"

text \<open>
  The committed pace: with loop, \<open>offset > 0 ? (delta > 0 ? -1 : 1) : 0\<close>; without loop,
  \<open>-sign(delta) \<times> ceil(|delta| / mainAxisSize)\<close>.
\<close>

definition commit_pace :: "props \<Rightarrow> touch \<Rightarrow> state \<Rightarrow> int" where
  "commit_pace p t s =
     (if loop p then
        (if (if vertical p then offsetY t else offsetX t) > 0
         then (if delta p t > 0 then - 1 else 1)
         else 0)
      else - sign_int (delta p t) * \<lceil>\<bar>delta p t\<bar> / size_swipe p s\<rceil>)"

text \<open>
  The remainder of a division truncated towards zero, for a positive divisor, in terms of
  the mathematical \<open>mod\<close>.
\<close>

definition js_remainder :: "int \<Rightarrow> int \<Rightarrow> int" where
  "js_remainder a b = (if 0 \<le> a then a mod b else - ((- a) mod b))"

subsection \<open>Auxiliary notions\<close>

text \<open>
  What \<^verbatim>\<open>move\<close> leaves alone: the measured rectangle, the panel size and the number of
  panels, hence every computed geometric value.
\<close>

definition same_frame :: "state \<Rightarrow> state \<Rightarrow> bool" where
  "same_frame s s' \<longleftrightarrow>
     rect s' = rect s \<and> width s' = width s \<and> height s' = height s
     \<and> length (children s') = length (children s)"

text \<open>The end of \<^verbatim>\<open>onTouchEnd\<close>: \<open>swiping\<close> is cleared and the autoplay timer re-armed.\<close>

definition touch_end_settle :: "props \<Rightarrow> state \<Rightarrow> state" where
  "touch_end_settle p s = autoplay_arm p (s\<lparr>swiping := False\<rparr>)"

text \<open>
  Without loop and with a bound \<open>maxCount\<close> other than \<^verbatim>\<open>NaN\<close>, the index a move of nonzero
  pace resolves when it aims at \<open>x\<close>.
\<close>

definition flat_clamp :: "props \<Rightarrow> state \<Rightarrow> int \<Rightarrow> int" where
  "flat_clamp p s x = (case maxCount p s of Fin m \<Rightarrow> min (max x 0) m | _ \<Rightarrow> max x 0)"


subsection \<open>Sample configurations\<close>

text \<open>
  Three panels of 100 by 50 pixels in a container of the same size, at rest on panel 0,
  with and without loop.
\<close>

definition demo_loop :: props where
  "demo_loop = \<lparr>loop = True, vertical = False, touchable = True, width_prop = None,
                 height_prop = None, autoplay = 0, initialSwipe = 0\<rparr>"

definition demo_flat :: props where
  "demo_flat = demo_loop\<lparr>loop := False\<rparr>"

definition demo_state :: state where
  "demo_state = \<lparr>rect = Some \<lparr>rect_width = 100, rect_height = 50\<rparr>, width = 100, height = 50,
                  offset = 0, active = 0, swiping = False, children = [0, 0, 0],
                  emitted = [], autoplayTimer = False, touchStartTime = 0\<rparr>"

text \<open>The sample state with a single panel.\<close>

definition single_state :: state where
  "single_state = demo_state\<lparr>children := [0]\<rparr>"

text \<open>A horizontal drag of 80 pixels to the left.\<close>

definition swipe_left :: touch where
  "swipe_left = \<lparr>deltaX = - 80, deltaY = 0, offsetX = 80, offsetY = 0, direction = Horizontal\<rparr>"


definition unmeasured :: state where
  "unmeasured = \<lparr>rect = None, width = 0, height = 0, offset = 0, active = 0, swiping = False,
                  children = [0, 0], emitted = [], autoplayTimer = False, touchStartTime = 0\<rparr>"


section \<open>Properties\<close>

lemmas demo_defs = demo_loop_def demo_flat_def demo_state_def

lemmas geom_defs = count_def size_swipe_def minOffset_def maxCount_def trackSize_def

lemmas js_defs = truthy_def js_max_def js_min_def range_js_def

lemmas fun_defs = getTargetActive_def getTargetOffset_def move_def activeIndicator_def js_rem_def
  loop_edge_offsets_def emit_change_def range_num_def correctPosition_def js_defs

lemma count_nonneg: "0 \<le> count s"
  by (simp add: count_def)

lemma maxCount_pos_size:
  assumes "0 < size_swipe p s"
  shows "maxCount p s = Fin \<lceil>\<bar>minOffset p s\<bar> / size_swipe p s\<rceil>"
    and "0 \<le> \<lceil>\<bar>minOffset p s\<bar> / size_swipe p s\<rceil>"
proof -
  show "maxCount p s = Fin \<lceil>\<bar>minOffset p s\<bar> / size_swipe p s\<rceil>"
    using assms by (simp add: maxCount_def)
  have "0 \<le> \<bar>minOffset p s\<bar> / size_swipe p s"
    using assms by (intro divide_nonneg_pos) simp_all
  then show "0 \<le> \<lceil>\<bar>minOffset p s\<bar> / size_swipe p s\<rceil>"
    by (simp add: zero_le_ceiling)
qed

lemma maxCount_cases:
  "maxCount p s = NaN \<longleftrightarrow> size_swipe p s = 0 \<and> minOffset p s = 0"
  "maxCount p s = PosInf \<longleftrightarrow> size_swipe p s = 0 \<and> minOffset p s \<noteq> 0"
  "maxCount p s \<noteq> NegInf"
  by (simp_all add: maxCount_def)

subsection \<open>Clamping numbers that need not be finite\<close>

lemma range_js_finite:
  "range_js (Fin x) (Fin lo) (Fin hi) = Fin (range_num x lo hi)"
  "range_js (Fin x) (Fin lo) PosInf = Fin (max x lo)"
  "range_js (Fin x) (Fin lo) NaN = NaN"
  by (auto simp: js_defs range_num_def)

lemma range_js_infinite:
  "lo \<le> hi \<Longrightarrow> range_js PosInf (Fin lo) (Fin hi) = Fin hi"
  "lo \<le> hi \<Longrightarrow> range_js NegInf (Fin lo) (Fin hi) = Fin lo"
  "range_js NegInf (Fin lo) PosInf = Fin lo"
  "range_js PosInf (Fin lo) PosInf = PosInf"
  by (simp_all add: js_defs)

lemma getTargetActive_Fin:
  "getTargetActive p s (Fin pace) =
     (if pace = 0 then Fin (active s)
      else if loop p then Fin (range_num (active s + pace) (- 1) (count s))
      else range_js (Fin (active s + pace)) (Fin 0) (maxCount p s))"
  by (simp add: getTargetActive_def truthy_def range_js_finite)

lemma getTargetActive_zero: "getTargetActive p s (Fin 0) = Fin (active s)"
  by (simp add: getTargetActive_Fin)

lemma getTargetActive_loop:
  "loop p \<Longrightarrow> pace \<noteq> 0 \<Longrightarrow>
     getTargetActive p s (Fin pace) = Fin (range_num (active s + pace) (- 1) (count s))"
  by (simp add: getTargetActive_Fin)

lemma getTargetActive_loop_finite:
  assumes "loop p"
  shows "\<exists>ta. getTargetActive p s pace = Fin ta"
proof (cases pace)
  case (Fin k)
  with assms show ?thesis by (simp add: getTargetActive_Fin)
next
  case PosInf
  with assms count_nonneg [of s] show ?thesis
    by (simp add: getTargetActive_def truthy_def range_js_infinite)
next
  case NegInf
  with assms count_nonneg [of s] show ?thesis
    by (simp add: getTargetActive_def truthy_def range_js_infinite)
next
  case NaN
  then show ?thesis by (simp add: getTargetActive_def truthy_def)
qed

lemma getTargetActive_flat:
  assumes "\<not> loop p" and "pace \<noteq> 0" and "maxCount p s \<noteq> NaN"
  shows "getTargetActive p s (Fin pace) = Fin (flat_clamp p s (active s + pace))"
  using assms maxCount_cases(3) [of p s]
  by (cases "maxCount p s")
    (simp_all add: getTargetActive_Fin flat_clamp_def range_js_finite range_num_def)

lemma getTargetActive_flat_pos:
  assumes "\<not> loop p" and "0 < size_swipe p s" and "pace \<noteq> 0"
  shows "\<exists>m. maxCount p s = Fin m \<and> 0 \<le> m
           \<and> getTargetActive p s (Fin pace) = Fin (range_num (active s + pace) 0 m)"
  using assms maxCount_pos_size [OF assms(2)]
  by (simp add: getTargetActive_Fin range_js_finite)

lemma flat_fin:
  assumes "\<not> loop p" and "pace \<noteq> 0" and "maxCount p s = Fin m"
  shows "getTargetActive p s (Fin pace)
         = Fin (if 0 \<le> m then (if active s + pace < 0 then 0
                                 else if m < active s + pace then m else active s + pace)
                else m)"
  using assms by (auto simp: getTargetActive_Fin range_js_finite range_num_def)

lemma getTargetActive_nan:
  assumes "\<not> loop p" and "pace \<noteq> 0" and "size_swipe p s = 0" and "minOffset p s = 0"
  shows "getTargetActive p s (Fin pace) = NaN"
  using assms by (simp add: getTargetActive_Fin maxCount_def range_js_finite)

lemma getTargetActive_total:
  assumes "loop p \<or> pace = 0 \<or> size_swipe p s \<noteq> 0 \<or> minOffset p s \<noteq> 0"
  shows "\<exists>ta. getTargetActive p s (Fin pace) = Fin ta"
proof (cases "loop p \<or> pace = 0")
  case True
  then show ?thesis by (auto simp: getTargetActive_Fin)
next
  case False
  with assms have "maxCount p s \<noteq> NaN" by (simp add: maxCount_cases)
  with False show ?thesis by (simp add: getTargetActive_flat)
qed

subsection \<open>Facts about moving\<close>

lemma same_frame_geom:
  assumes "same_frame s s'"
  shows "count s' = count s" "size_swipe p s' = size_swipe p s"
    "minOffset p s' = minOffset p s" "maxCount p s' = maxCount p s"
    "trackSize p s' = trackSize p s"
proof -
  show c: "count s' = count s" using assms by (simp add: same_frame_def count_def)
  show z: "size_swipe p s' = size_swipe p s" using assms by (simp add: same_frame_def size_swipe_def)
  show m: "minOffset p s' = minOffset p s"
    using assms c z by (simp add: same_frame_def minOffset_def split: option.split)
  show "maxCount p s' = maxCount p s" using z m by (simp add: maxCount_def)
  show "trackSize p s' = trackSize p s" using c z by (simp add: trackSize_def)
qed

lemma same_frame_refl: "same_frame s s"
  by (simp add: same_frame_def)

lemma same_frame_trans: "same_frame s s' \<Longrightarrow> same_frame s' s'' \<Longrightarrow> same_frame s s''"
  by (simp add: same_frame_def)


lemma move_single: "count s \<le> 1 \<Longrightarrow> move p pace off em s = Some s"
  by (simp add: move_def)

lemma loop_edge_offsets_length: "length (loop_edge_offsets p s tO) = length (children s)"
  by (simp add: loop_edge_offsets_def Let_def)

lemma loop_edge_offsets_first:
  assumes "loop p" and "1 < count s" and "tO \<noteq> minOffset p s"
  shows "loop_edge_offsets p s tO ! 0 = (if tO < minOffset p s then trackSize p s else 0)"
proof -
  from assms(2) have "children s \<noteq> []" "0 \<noteq> nat (count s - 1)"
    by (auto simp: count_def)
  with assms(1,3) show ?thesis
    by (simp add: loop_edge_offsets_def Let_def)
qed

lemma loop_edge_offsets_last:
  assumes "loop p" and "1 < count s" and "tO \<noteq> 0"
  shows "loop_edge_offsets p s tO ! nat (count s - 1)
         = (if tO > 0 then - trackSize p s else 0)"
proof -
  from assms(2) have "children s \<noteq> []" "nat (count s - 1) < length (children s)"
    by (auto simp: count_def)
  with assms(1,3) show ?thesis
    by (simp add: loop_edge_offsets_def Let_def)
qed

lemma loop_edge_offsets_flat: "\<not> loop p \<Longrightarrow> loop_edge_offsets p s tO = children s"
  by (simp add: loop_edge_offsets_def)

lemma move_unfold:
  assumes "1 < count s" and "getTargetActive p s pace = Fin ta"
  shows "move p pace off em s =
     Some (if em \<and> ta \<noteq> active s
           then s\<lparr>children := loop_edge_offsets p s (getTargetOffset p s ta off), active := ta,
                  offset := getTargetOffset p s ta off,
                  emitted := emitted s @ [sgn (ta + count s) * (\<bar>ta + count s\<bar> mod count s)]\<rparr>
           else s\<lparr>children := loop_edge_offsets p s (getTargetOffset p s ta off), active := ta,
                  offset := getTargetOffset p s ta off\<rparr>)"
proof -
  from assms(1) have c: "\<not> count s \<le> 1" "count s \<noteq> 0" by simp_all
  have cu: "\<And>ch a b. count (s\<lparr>children := ch, active := a, offset := b\<rparr>) = int (length ch)"
    by (simp add: count_def)
  have cs: "int (length (children s)) = count s" by (simp add: count_def)
  show ?thesis
    using assms(2) c
    by (simp add: move_def Let_def emit_change_def activeIndicator_def js_rem_def cu cs
        loop_edge_offsets_length)
qed

lemma move_fields:
  assumes "1 < count s" and "getTargetActive p s pace = Fin ta"
  shows "\<exists>s'. move p pace off em s = Some s' \<and> active s' = ta
           \<and> offset s' = getTargetOffset p s ta off
           \<and> children s' = loop_edge_offsets p s (getTargetOffset p s ta off)
           \<and> same_frame s s' \<and> swiping s' = swiping s
           \<and> emitted s' = (if em \<and> ta \<noteq> active s
                             then emitted s @ [sgn (ta + count s) * (\<bar>ta + count s\<bar> mod count s)]
                             else emitted s)"
  unfolding move_unfold [OF assms]
  by (simp add: same_frame_def loop_edge_offsets_length)



lemma move_total:
  assumes "loop p \<or> pace = 0 \<or> size_swipe p s \<noteq> 0 \<or> minOffset p s \<noteq> 0"
  shows "\<exists>s'. move p (Fin pace) off em s = Some s' \<and> same_frame s s' \<and> swiping s' = swiping s
           \<and> (\<not> em \<longrightarrow> emitted s' = emitted s)"
proof (cases "1 < count s")
  case True
  from getTargetActive_total [OF assms] obtain ta where
    ta: "getTargetActive p s (Fin pace) = Fin ta"
    by blast
  from move_fields [OF True ta, of off em] show ?thesis by auto
next
  case False
  then show ?thesis by (simp add: move_single same_frame_refl)
qed

lemma swiping_frame [simp]:
  "same_frame s (s\<lparr>swiping := b\<rparr>)"
  "count (s\<lparr>swiping := b\<rparr>) = count s" "size_swipe p (s\<lparr>swiping := b\<rparr>) = size_swipe p s"
  "minOffset p (s\<lparr>swiping := b\<rparr>) = minOffset p s" "maxCount p (s\<lparr>swiping := b\<rparr>) = maxCount p s"
proof -
  show f: "same_frame s (s\<lparr>swiping := b\<rparr>)" by (simp add: same_frame_def)
  from same_frame_geom [OF f]
  show "count (s\<lparr>swiping := b\<rparr>) = count s" "size_swipe p (s\<lparr>swiping := b\<rparr>) = size_swipe p s"
    "minOffset p (s\<lparr>swiping := b\<rparr>) = minOffset p s" "maxCount p (s\<lparr>swiping := b\<rparr>) = maxCount p s"
    by simp_all
qed

lemma swiping_resolver [simp]:
  "activeIndicator (s\<lparr>swiping := b\<rparr>) = activeIndicator s"
  "getTargetActive p (s\<lparr>swiping := b\<rparr>) pace = getTargetActive p s pace"
  "flat_clamp p (s\<lparr>swiping := b\<rparr>) x = flat_clamp p s x"
  by (simp_all add: activeIndicator_def getTargetActive_def flat_clamp_def)

lemma rem_shifted:
  assumes "0 < (c::int)" and "0 \<le> a + c"
  shows "sgn (a + c) * (\<bar>a + c\<bar> mod c) = a mod c"
proof (cases "a + c = 0")
  case True
  then have "a = - c" by linarith
  with True show ?thesis by simp
next
  case False
  with assms show ?thesis by (simp add: sgn_if)
qed

lemma activeIndicator_add:
  assumes "1 < count s" and "0 \<le> active s + count s"
  shows "activeIndicator s = Some (active s mod count s)"
  using assms rem_shifted [of "count s" "active s"]
  by (simp add: activeIndicator_def js_rem_def)


lemma js_rem_nonneg: "0 \<le> a \<Longrightarrow> 0 < b \<Longrightarrow> js_rem a b = Some (a mod b)"
  by (cases "a = 0") (simp_all add: js_rem_def sgn_if)

lemma js_rem_neg: "a < 0 \<Longrightarrow> 0 < b \<Longrightarrow> js_rem a b = Some (- ((- a) mod b))"
  by (simp add: js_rem_def sgn_if)

lemma js_rem_remainder: "0 < b \<Longrightarrow> js_rem a b = Some (js_remainder a b)"
  by (cases "0 \<le> a") (simp_all add: js_remainder_def js_rem_nonneg js_rem_neg)

lemma js_remainder_range:
  assumes "0 < b"
  shows "- b < js_remainder a b" and "js_remainder a b < b"
    and "0 \<le> a \<Longrightarrow> js_remainder a b = a mod b \<and> 0 \<le> js_remainder a b"
    and "a < 0 \<Longrightarrow> js_remainder a b \<le> 0"
proof -
  have m: "0 \<le> a mod b" "a mod b < b" "0 \<le> (- a) mod b" "(- a) mod b < b"
    using assms by simp_all
  have lo: "- b < a mod b" "- b < - ((- a) mod b)" using m assms by linarith+
  have hi: "a mod b < b" "- ((- a) mod b) < b" using m assms by linarith+
  show "- b < js_remainder a b"
    unfolding js_remainder_def using lo by (cases "0 \<le> a") (simp_all only: if_True if_False)
  show "js_remainder a b < b"
    unfolding js_remainder_def using hi by (cases "0 \<le> a") (simp_all only: if_True if_False)
  show "0 \<le> a \<Longrightarrow> js_remainder a b = a mod b \<and> 0 \<le> js_remainder a b"
    using m by (simp add: js_remainder_def)
  show "a < 0 \<Longrightarrow> js_remainder a b \<le> 0"
    using m by (simp add: js_remainder_def)
qed

lemma flick_pace_sign:
  assumes "sz \<noteq> 0"
  shows "flick_pace d sz = Fin (- sign_int d * \<lceil>\<bar>d\<bar> / sz\<rceil>)"
proof -
  consider (pos) "0 < d" | (neg) "d < 0" | (zero) "d = 0" by linarith
  then show ?thesis
  proof cases
    case pos
    with assms show ?thesis by (simp add: flick_pace_def sign_int_def)
  next
    case neg
    then have "\<lceil>\<bar>d\<bar> / sz\<rceil> = - \<lfloor>d / sz\<rfloor>"
      by (simp add: ceiling_def)
    with neg assms show ?thesis by (simp add: flick_pace_def sign_int_def)
  next
    case zero
    with assms show ?thesis by (simp add: flick_pace_def sign_int_def)
  qed
qed

lemma correctPosition_total:
  assumes "loop p \<or> size_swipe p s \<noteq> 0 \<or> minOffset p s \<noteq> 0"
  shows "\<exists>s1. correctPosition p s = Some s1 \<and> same_frame s s1 \<and> swiping s1
           \<and> emitted s1 = emitted s"
proof -
  let ?s1 = "s\<lparr>swiping := True\<rparr>"
  have f: "same_frame s ?s1" by simp
  have a: "\<And>pace. loop p \<or> pace = 0 \<or> size_swipe p ?s1 \<noteq> 0 \<or> minOffset p ?s1 \<noteq> 0"
    using assms by auto
  have "\<And>pace. \<exists>s'. move p (Fin pace) 0 False ?s1 = Some s' \<and> same_frame s s' \<and> swiping s'
           \<and> emitted s' = emitted s"
  proof -
    fix pace
    from move_total [OF a, of pace 0 False] obtain s' where
      "move p (Fin pace) 0 False ?s1 = Some s'" "same_frame ?s1 s'" "swiping s' = swiping ?s1"
      "emitted s' = emitted ?s1"
      by auto
    with same_frame_trans [OF f] show "\<exists>s'. move p (Fin pace) 0 False ?s1 = Some s'
        \<and> same_frame s s' \<and> swiping s' \<and> emitted s' = emitted s"
      by auto
  qed
  then show ?thesis
    by (simp add: correctPosition_def Let_def)
qed


lemma correctPosition_unwrap:
  assumes "loop p" and "1 < count s" and "- 1 \<le> active s" and "active s \<le> count s"
  shows "\<exists>s'. correctPosition p s = Some s' \<and> swiping s' \<and> same_frame s s'
           \<and> emitted s' = emitted s
           \<and> activeIndicator s' = activeIndicator s
           \<and> 0 \<le> active s' \<and> active s' < count s
           \<and> (active s \<le> - 1 \<longrightarrow> active s' = active s + count s)
           \<and> (count s \<le> active s \<longrightarrow> active s' = active s - count s)"
proof -
  let ?s1 = "s\<lparr>swiping := True\<rparr>"
  have c1: "1 < count ?s1" using assms(2) by simp
  have f1: "same_frame s ?s1" by simp
  consider (left) "active s = - 1" | (right) "active s = count s"
    | (mid) "0 \<le> active s" "active s < count s"
    using assms(3,4) by linarith
  then show ?thesis
  proof cases
    case left
    have ta: "getTargetActive p ?s1 (Fin (count ?s1)) = Fin (count s - 1)"
      using assms(1,2) left by (simp add: getTargetActive_Fin range_num_def)
    from move_fields [OF c1 ta, of 0 False] obtain s' where
      s': "move p (Fin (count ?s1)) 0 False ?s1 = Some s'" "active s' = count s - 1"
        "same_frame ?s1 s'" "swiping s' = swiping ?s1" "emitted s' = emitted ?s1"
      by auto
    have f: "same_frame s s'" using same_frame_trans [OF f1 s'(3)] .
    have cs: "count s' = count s" using same_frame_geom(1) [OF f] .
    have "activeIndicator s' = Some (active s' mod count s')"
      using assms(2) s'(2) cs by (intro activeIndicator_add) simp_all
    moreover have "activeIndicator s = Some (active s mod count s)"
      using assms(2) left by (intro activeIndicator_add) simp_all
    moreover have "(count s - 1) mod count s = (- 1) mod count s"
      by (metis diff_conv_add_uminus mod_add_self1)
    ultimately have "activeIndicator s' = activeIndicator s"
      using s'(2) cs left by simp
    with s' f left assms(2) show ?thesis
      by (simp add: correctPosition_def)
  next
    case right
    have ta: "getTargetActive p ?s1 (Fin (- count ?s1)) = Fin 0"
      using assms(1,2) right by (simp add: getTargetActive_Fin range_num_def)
    from move_fields [OF c1 ta, of 0 False] obtain s' where
      s': "move p (Fin (- count ?s1)) 0 False ?s1 = Some s'" "active s' = 0"
        "same_frame ?s1 s'" "swiping s' = swiping ?s1" "emitted s' = emitted ?s1"
      by auto
    have f: "same_frame s s'" using same_frame_trans [OF f1 s'(3)] .
    have cs: "count s' = count s" using same_frame_geom(1) [OF f] .
    have "activeIndicator s' = Some (active s' mod count s')"
      using assms(2) s'(2) cs by (intro activeIndicator_add) simp_all
    moreover have "activeIndicator s = Some (active s mod count s)"
      using assms(2) right by (intro activeIndicator_add) simp_all
    ultimately have "activeIndicator s' = activeIndicator s"
      using s'(2) cs right by simp
    with s' f right assms(2) show ?thesis
      by (simp add: correctPosition_def)
  next
    case mid
    then show ?thesis by (simp add: correctPosition_def)
  qed
qed

subsection \<open>Facts about jumping to an index\<close>





lemma targetIndex_resolved:
  assumes "1 < count s"
  shows "targetIndex p i s
         = Some (if loop p \<and> i = count s then (if active s = 0 then 0 else count s)
                 else js_remainder i (count s))"
  using assms by (simp add: targetIndex_def js_rem_remainder)


lemma swipeTo_unfold:
  assumes "correctPosition p s = Some s1" and "targetIndex p i s1 = Some t"
  shows "swipeTo p i imm s
         = move p (Fin (t - active s1)) 0 True (if imm then s1 else s1\<lparr>swiping := False\<rparr>)"
  using assms by (simp add: swipeTo_def Let_def)





subsection \<open>Facts about notifications\<close>




subsection \<open>A panel size of zero or below\<close>

text \<open>
  Three panels of width 0 in a measured container of 100 pixels, without loop: the bound
  \<open>maxCount\<close> is \<^verbatim>\<open>Infinity\<close> and the numbers stay finite. A pace of 5 resolves the index 5,
  \<^verbatim>\<open>next\<close> stores the index 1 and fires a notification, and the pace \<^verbatim>\<open>-Infinity\<close> of a flick
  to the right resolves the index 0.
\<close>

lemma zero_size_examples:
  "maxCount demo_flat (demo_state\<lparr>width := 0\<rparr>) = PosInf"
  "getTargetActive demo_flat (demo_state\<lparr>width := 0\<rparr>) (Fin 5) = Fin 5"
  "map_option active (next_swipe demo_flat (demo_state\<lparr>width := 0\<rparr>)) = Some 1"
  "map_option emitted (next_swipe demo_flat (demo_state\<lparr>width := 0\<rparr>)) = Some [1]"
  "flick_pace 30 (size_swipe demo_flat (demo_state\<lparr>width := 0\<rparr>)) = NegInf"
  "map_option active (move demo_flat NegInf 0 True (demo_state\<lparr>width := 0, active := 1\<rparr>))
     = Some 0"
  "map_option offset (move demo_flat NegInf 0 True (demo_state\<lparr>width := 0, active := 1\<rparr>))
     = Some 0"
  "move demo_flat PosInf 0 True (demo_state\<lparr>width := 0, active := 1\<rparr>) = None"
  by (simp_all add: demo_defs geom_defs fun_defs next_swipe_def flick_pace_def Let_def)

text \<open>
  With a negative panel size the bound \<open>maxCount\<close> can be negative, and so can the payload
  of a notification: three panels of width \<open>-100\<close> in a container of 100 pixels have the
  bound \<open>-4\<close>, and a move of pace 1 fires the notification \<open>-1\<close>.
\<close>

lemma negative_size_example:
  "maxCount demo_flat (demo_state\<lparr>width := - 100\<rparr>) = Fin (- 4)"
  "map_option active (move demo_flat (Fin 1) 0 True (demo_state\<lparr>width := - 100\<rparr>)) = Some (- 4)"
  "map_option emitted (move demo_flat (Fin 1) 0 True (demo_state\<lparr>width := - 100\<rparr>)) = Some [- 1]"
  by (simp_all add: demo_defs geom_defs fun_defs Let_def)

subsection \<open>The position resolver\<close>

text \<open>
  Claim C1, as amended. \<^verbatim>\<open>getTargetActive(pace)\<close> returns the current active index when the
  pace is 0, and with loop it returns \<open>active + pace\<close> clamped into \<open>[-1, count]\<close>. Without
  loop, let \<open>maxPace\<close> be the ceiling of \<open>|minOffset| / mainAxisSize\<close>. For a nonzero panel size
  and \<open>maxPace \<ge> 0\<close>, which a positive size always gives, it returns \<open>active + pace\<close> clamped
  into \<open>[0, maxPace]\<close>; for a nonzero size and \<open>maxPace < 0\<close> it returns \<open>maxPace\<close>. For a panel
  size of 0 the bound is not a number of the claim: with \<open>minOffset \<noteq> 0\<close> it is \<^verbatim>\<open>Infinity\<close> and
  the result is the maximum of \<open>active + pace\<close> and 0; with \<open>minOffset = 0\<close>, as before the
  first measurement, it is \<^verbatim>\<open>NaN\<close> and so is the result.
\<close>

theorem getTargetActive_resolves:
  "(pace = 0 \<longrightarrow> getTargetActive p s (Fin pace) = Fin (active s))
   \<and> (pace \<noteq> 0 \<and> loop p \<longrightarrow>
        getTargetActive p s (Fin pace) = Fin (clamp_into (- 1) (count s) (active s + pace))
        \<and> - 1 \<le> clamp_into (- 1) (count s) (active s + pace)
        \<and> clamp_into (- 1) (count s) (active s + pace) \<le> count s)
   \<and> (pace \<noteq> 0 \<and> \<not> loop p \<and> size_swipe p s \<noteq> 0
        \<and> 0 \<le> \<lceil>\<bar>minOffset p s\<bar> / size_swipe p s\<rceil> \<longrightarrow>
        getTargetActive p s (Fin pace)
          = Fin (clamp_into 0 \<lceil>\<bar>minOffset p s\<bar> / size_swipe p s\<rceil> (active s + pace))
        \<and> 0 \<le> clamp_into 0 \<lceil>\<bar>minOffset p s\<bar> / size_swipe p s\<rceil> (active s + pace)
        \<and> clamp_into 0 \<lceil>\<bar>minOffset p s\<bar> / size_swipe p s\<rceil> (active s + pace)
            \<le> \<lceil>\<bar>minOffset p s\<bar> / size_swipe p s\<rceil>)
   \<and> (0 < size_swipe p s \<longrightarrow> 0 \<le> \<lceil>\<bar>minOffset p s\<bar> / size_swipe p s\<rceil>)
   \<and> (pace \<noteq> 0 \<and> \<not> loop p \<and> size_swipe p s \<noteq> 0
        \<and> \<lceil>\<bar>minOffset p s\<bar> / size_swipe p s\<rceil> < 0 \<longrightarrow>
        getTargetActive p s (Fin pace) = Fin \<lceil>\<bar>minOffset p s\<bar> / size_swipe p s\<rceil>)
   \<and> (pace \<noteq> 0 \<and> \<not> loop p \<and> size_swipe p s = 0 \<and> minOffset p s \<noteq> 0 \<longrightarrow>
        getTargetActive p s (Fin pace) = Fin (max (active s + pace) 0))
   \<and> (pace \<noteq> 0 \<and> \<not> loop p \<and> size_swipe p s = 0 \<and> minOffset p s = 0 \<longrightarrow>
        getTargetActive p s (Fin pace) = NaN)"
proof -
  define m where "m = \<lceil>\<bar>minOffset p s\<bar> / size_swipe p s\<rceil>"
  have zero: "pace = 0 \<longrightarrow> getTargetActive p s (Fin pace) = Fin (active s)"
    by (simp add: getTargetActive_zero)
  have looped: "pace \<noteq> 0 \<and> loop p \<longrightarrow>
      getTargetActive p s (Fin pace) = Fin (clamp_into (- 1) (count s) (active s + pace))
      \<and> - 1 \<le> clamp_into (- 1) (count s) (active s + pace)
      \<and> clamp_into (- 1) (count s) (active s + pace) \<le> count s"
    using count_nonneg [of s]
    by (auto simp: getTargetActive_loop range_num_def clamp_into_def)
  have inside: "pace \<noteq> 0 \<and> \<not> loop p \<and> size_swipe p s \<noteq> 0 \<and> 0 \<le> m \<longrightarrow>
      getTargetActive p s (Fin pace) = Fin (clamp_into 0 m (active s + pace))
      \<and> 0 \<le> clamp_into 0 m (active s + pace) \<and> clamp_into 0 m (active s + pace) \<le> m"
    using flat_fin [of p pace s m] by (auto simp: m_def maxCount_def clamp_into_def)
  have positive: "0 < size_swipe p s \<longrightarrow> 0 \<le> m"
    using maxCount_pos_size(2) [of p s] by (simp add: m_def)
  have below: "pace \<noteq> 0 \<and> \<not> loop p \<and> size_swipe p s \<noteq> 0 \<and> m < 0 \<longrightarrow>
      getTargetActive p s (Fin pace) = Fin m"
    using flat_fin [of p pace s m] by (auto simp: m_def maxCount_def)
  have unbounded: "pace \<noteq> 0 \<and> \<not> loop p \<and> size_swipe p s = 0 \<and> minOffset p s \<noteq> 0 \<longrightarrow>
      getTargetActive p s (Fin pace) = Fin (max (active s + pace) 0)"
    by (simp add: getTargetActive_Fin maxCount_def range_js_finite)
  have nan: "pace \<noteq> 0 \<and> \<not> loop p \<and> size_swipe p s = 0 \<and> minOffset p s = 0 \<longrightarrow>
      getTargetActive p s (Fin pace) = NaN"
    by (simp add: getTargetActive_nan)
  from zero looped inside positive below unbounded nan show ?thesis
    unfolding m_def by blast
qed

theorem getTargetActive_resolves_witness:
  "\<not> loop demo_flat \<and> size_swipe demo_flat demo_state = 100
   \<and> \<lceil>\<bar>minOffset demo_flat demo_state\<bar> / size_swipe demo_flat demo_state\<rceil> = 2
   \<and> getTargetActive demo_flat demo_state (Fin 5) = Fin 2
   \<and> clamp_into 0 2 (active demo_state + 5) = 2"
  using getTargetActive_resolves [of 5 demo_flat demo_state]
  by (simp add: demo_defs geom_defs clamp_into_def)

text \<open>
  Claim C1 as stated fails in the state the component has before its first measurement
  (no rectangle, width 0): without loop, a pace of 1 resolves \<^verbatim>\<open>NaN\<close>, which is no clamped
  index.
\<close>

theorem getTargetActive_resolves_counterexample:
  "\<not> loop demo_flat \<and> size_swipe demo_flat unmeasured = 0
   \<and> getTargetActive demo_flat unmeasured (Fin 1) = NaN"
  by (simp add: demo_defs unmeasured_def geom_defs getTargetActive_Fin range_js_finite)

subsection \<open>Offset bounds without loop\<close>




subsection \<open>The observed index\<close>

text \<open>
  Claim C3. With more than one panel and the active index within \<open>[-1, count]\<close>,
  \<^verbatim>\<open>activeIndicator\<close> lies in \<open>[0, count)\<close> and is the mathematical \<open>active mod count\<close>.
\<close>

theorem activeIndicator_normalized:
  assumes "1 < count s" and "- 1 \<le> active s" and "active s \<le> count s"
  shows "\<exists>i. activeIndicator s = Some i \<and> 0 \<le> i \<and> i < count s \<and> i = active s mod count s"
proof -
  from assms have "0 \<le> active s + count s" by simp
  then have "sgn (active s + count s) * (\<bar>active s + count s\<bar> mod \<bar>count s\<bar>)
             = active s mod count s"
    using assms by (cases "active s + count s = 0") (simp_all add: sgn_if)
  with assms(1) show ?thesis by (simp add: activeIndicator_def js_rem_def)
qed

theorem activeIndicator_normalized_witness:
  "1 < count (demo_state\<lparr>active := - 1\<rparr>) \<and> - 1 \<le> active (demo_state\<lparr>active := - 1\<rparr>)
   \<and> active (demo_state\<lparr>active := - 1\<rparr>) \<le> count (demo_state\<lparr>active := - 1\<rparr>)
   \<and> activeIndicator (demo_state\<lparr>active := - 1\<rparr>) = Some 2"
  using activeIndicator_normalized [of "demo_state\<lparr>active := - 1\<rparr>"]
  by (simp add: demo_defs geom_defs activeIndicator_def js_rem_def)

subsection \<open>A single panel\<close>

text \<open>
  Claim C5. With at most one panel, \<^verbatim>\<open>move\<close> is a no-op for every pace, offset and
  notification flag: it returns the state it was given, so the active index, the offset,
  the panel offsets and the trace of notifications are unchanged.
\<close>

theorem move_single_panel_noop:
  assumes "count s \<le> 1"
  shows "move p pace off em s = Some s"
  using assms by (rule move_single)

theorem move_single_panel_noop_witness:
  "count single_state \<le> 1 \<and> move demo_loop (Fin 1) 7 True single_state = Some single_state"
  using move_single_panel_noop [of single_state demo_loop "Fin 1" 7 True]
  by (simp add: single_state_def demo_defs count_def)

subsection \<open>The edge panels in loop mode\<close>

text \<open>
  Claim C6. In loop mode with more than one panel, after every move: if the new offset
  differs from \<open>minOffset\<close>, panel 0 has the offset \<open>trackSize\<close> when the new offset is
  below \<open>minOffset\<close> and 0 otherwise; if the new offset differs from 0, the last panel has
  the offset \<open>- trackSize\<close> when the new offset is above 0 and 0 otherwise.
\<close>

theorem move_loop_edges:
  assumes "loop p" and "1 < count s"
  shows "\<exists>s'. move p pace off em s = Some s'
           \<and> length (children s') = length (children s)
           \<and> (offset s' \<noteq> minOffset p s \<longrightarrow>
                children s' ! 0 = (if offset s' < minOffset p s then trackSize p s else 0))
           \<and> (offset s' \<noteq> 0 \<longrightarrow>
                children s' ! nat (count s - 1)
                  = (if offset s' > 0 then - trackSize p s else 0))"
proof -
  from getTargetActive_loop_finite [OF assms(1)] obtain ta where
    ta: "getTargetActive p s pace = Fin ta"
    by blast
  from move_fields [OF assms(2) ta, of off em] obtain s' where
    s': "move p pace off em s = Some s'" "offset s' = getTargetOffset p s ta off"
      "children s' = loop_edge_offsets p s (getTargetOffset p s ta off)"
    by blast
  show ?thesis
    using s' loop_edge_offsets_first [OF assms, of "offset s'"]
      loop_edge_offsets_last [OF assms, of "offset s'"]
    by (simp add: loop_edge_offsets_length)
qed

theorem move_loop_edges_witness:
  "loop demo_loop \<and> 1 < count (demo_state\<lparr>active := 2\<rparr>)
   \<and> map_option children (move demo_loop (Fin 1) (- 250) False (demo_state\<lparr>active := 2\<rparr>))
       = Some [300, 0, 0]
   \<and> map_option offset (move demo_loop (Fin 1) (- 250) False (demo_state\<lparr>active := 2\<rparr>))
       = Some (- 550)
   \<and> minOffset demo_loop (demo_state\<lparr>active := 2\<rparr>) = - 200
   \<and> trackSize demo_loop (demo_state\<lparr>active := 2\<rparr>) = 300"
  using move_loop_edges [of demo_loop "demo_state\<lparr>active := 2\<rparr>" "Fin 1" "- 250" False]
  by (simp add: demo_defs geom_defs fun_defs Let_def getTargetActive_Fin)

subsection \<open>Position correction\<close>

text \<open>
  Claim C9. In loop mode with more than one panel and the active index within
  \<open>[-1, count]\<close>, \<^verbatim>\<open>correctPosition\<close> sets \<open>swiping\<close>, keeps \<^verbatim>\<open>activeIndicator\<close> and leaves
  the active index within \<open>[0, count)\<close>: an index of at most \<open>-1\<close> goes forward by \<open>count\<close>
  panels, an index of at least \<open>count\<close> goes back by \<open>count\<close> panels.
\<close>

theorem correctPosition_loop:
  assumes "loop p" and "1 < count s" and "- 1 \<le> active s" and "active s \<le> count s"
  shows "\<exists>s'. correctPosition p s = Some s' \<and> swiping s' \<and> count s' = count s
           \<and> activeIndicator s' = activeIndicator s
           \<and> 0 \<le> active s' \<and> active s' < count s
           \<and> (active s \<le> - 1 \<longrightarrow> active s' = active s + count s)
           \<and> (count s \<le> active s \<longrightarrow> active s' = active s - count s)"
proof -
  from correctPosition_unwrap [OF assms] obtain s' where
    s': "correctPosition p s = Some s'" "swiping s'" "same_frame s s'"
      "activeIndicator s' = activeIndicator s" "0 \<le> active s'" "active s' < count s"
      "active s \<le> - 1 \<longrightarrow> active s' = active s + count s"
      "count s \<le> active s \<longrightarrow> active s' = active s - count s"
    by blast
  from same_frame_geom(1) [OF s'(3)] have "count s' = count s" .
  with s' show ?thesis by blast
qed

theorem correctPosition_loop_witness:
  "loop demo_loop \<and> 1 < count (demo_state\<lparr>active := 3\<rparr>)
   \<and> - 1 \<le> active (demo_state\<lparr>active := 3\<rparr>)
   \<and> active (demo_state\<lparr>active := 3\<rparr>) \<le> count (demo_state\<lparr>active := 3\<rparr>)
   \<and> map_option active (correctPosition demo_loop (demo_state\<lparr>active := 3\<rparr>)) = Some 0
   \<and> map_option swiping (correctPosition demo_loop (demo_state\<lparr>active := 3\<rparr>)) = Some True"
  using correctPosition_loop [of demo_loop "demo_state\<lparr>active := 3\<rparr>"]
  by (simp add: demo_defs geom_defs fun_defs Let_def getTargetActive_Fin)

subsection \<open>Initialisation\<close>

text \<open>
  Claim C10. When the root element is measured, \<^verbatim>\<open>initialize\<close> bounds the requested index
  from above only: with at least one panel the stored index is the minimum of
  \<open>count - 1\<close> and the request, so a negative request is stored as it is; \<open>swiping\<close> is set
  and every panel offset is reset to 0.
\<close>

theorem initialize_active:
  "rect (initialize p (Some r) act s) = Some r
   \<and> (0 < count s \<longrightarrow> active (initialize p (Some r) act s) = min (count s - 1) act)
   \<and> (0 < count s \<and> act < 0 \<longrightarrow> active (initialize p (Some r) act s) = act)
   \<and> swiping (initialize p (Some r) act s)
   \<and> children (initialize p (Some r) act s) = replicate (length (children s)) 0"
  by (simp add: initialize_def Let_def stopAutoplay_def autoplay_arm_def count_def map_replicate_const)

theorem initialize_active_witness:
  "0 < count demo_state \<and> initialSwipe (demo_loop\<lparr>initialSwipe := - 2\<rparr>) = - 2
   \<and> active (onMounted (demo_loop\<lparr>initialSwipe := - 2\<rparr>)
        (Some \<lparr>rect_width = 100, rect_height = 50\<rparr>) demo_state) = - 2
   \<and> children (onMounted (demo_loop\<lparr>initialSwipe := - 2\<rparr>)
        (Some \<lparr>rect_width = 100, rect_height = 50\<rparr>) (demo_state\<lparr>children := [7, 0, - 300]\<rparr>))
       = [0, 0, 0]"
  using initialize_active [of "demo_loop\<lparr>initialSwipe := - 2\<rparr>"
      "\<lparr>rect_width = 100, rect_height = 50\<rparr>" "- 2" demo_state]
  by (simp add: onMounted_def demo_defs count_def initialize_def Let_def stopAutoplay_def
      autoplay_arm_def)

subsection \<open>The end of a gesture\<close>

text \<open>
  Claim C4. In a touch end that the handler processes (touchable, \<open>swiping\<close> set) with a
  nonzero elapsed time, the gesture commits, that is \<^verbatim>\<open>move\<close> is called with the committed
  pace and with notification, exactly when the direction matches the orientation and
  either \<open>|delta / elapsedMs| > 0.25\<close> or \<open>|delta| > mainAxisSize / 2\<close>; the committed pace is
  \<open>offset > 0 ? (delta > 0 ? -1 : 1) : 0\<close> with loop and
  \<open>-sign(delta) \<times> ceil(|delta| / mainAxisSize)\<close> without; a gesture that does not commit
  and has a nonzero delta calls \<^verbatim>\<open>move\<close> with pace 0 and no notification.
\<close>

theorem onTouchEnd_commit:
  assumes "touchable p" and "swiping s" and "now \<noteq> touchStartTime s"
    and "loop p \<or> size_swipe p s \<noteq> 0"
  shows "onTouchEnd p t now s =
           map_option (touch_end_settle p)
             (if gesture_commits p t (now - touchStartTime s) s
              then move p (Fin (commit_pace p t s)) 0 True s
              else if delta p t \<noteq> 0 then move p (Fin 0) 0 False s
              else Some s)"
proof -
  have sp: "speed_exceeds (delta p t) (now - touchStartTime s)
            \<longleftrightarrow> \<bar>delta p t / of_int (now - touchStartTime s)\<bar> > 1 / 4"
    using assms(3) by (simp add: speed_exceeds_def)
  have gc: "gesture_commits p t (now - touchStartTime s) s
            \<longleftrightarrow> (speed_exceeds (delta p t) (now - touchStartTime s)
                  \<or> \<bar>delta p t\<bar> > size_swipe p s / 2) \<and> isCorrectDirection p t"
    unfolding sp by (auto simp: gesture_commits_def isCorrectDirection_def)
  have mo: "\<And>x. (case x of None \<Rightarrow> None | Some s1 \<Rightarrow> Some (autoplay_arm p (s1\<lparr>swiping := False\<rparr>)))
            = map_option (touch_end_settle p) x"
    by (simp add: touch_end_settle_def split: option.split)
  show ?thesis
  proof (cases "loop p")
    case True
    with assms(1,2) show ?thesis
      unfolding onTouchEnd_def Let_def mo gc [symmetric]
      by (simp add: commit_pace_def)
  next
    case False
    with assms(4) have "size_swipe p s \<noteq> 0" by simp
    from flick_pace_sign [OF this, of "delta p t"] False assms(1,2) show ?thesis
      unfolding onTouchEnd_def Let_def mo gc [symmetric]
      by (simp add: commit_pace_def)
  qed
qed

theorem onTouchEnd_commit_witness:
  "touchable demo_loop \<and> swiping (demo_state\<lparr>swiping := True\<rparr>)
   \<and> (100::int) > touchStartTime (demo_state\<lparr>swiping := True\<rparr>)
   \<and> loop demo_loop
   \<and> gesture_commits demo_loop swipe_left (100 - touchStartTime (demo_state\<lparr>swiping := True\<rparr>))
        (demo_state\<lparr>swiping := True\<rparr>)
   \<and> commit_pace demo_loop swipe_left (demo_state\<lparr>swiping := True\<rparr>) = 1
   \<and> map_option active (onTouchEnd demo_loop swipe_left 100 (demo_state\<lparr>swiping := True\<rparr>))
       = Some 1
   \<and> map_option emitted (onTouchEnd demo_loop swipe_left 100 (demo_state\<lparr>swiping := True\<rparr>))
       = Some [1]"
  using onTouchEnd_commit [of demo_loop "demo_state\<lparr>swiping := True\<rparr>" 100 swipe_left]
  by (simp add: demo_defs geom_defs fun_defs Let_def swipe_left_def gesture_commits_def
      commit_pace_def delta_def touch_end_settle_def autoplay_arm_def getTargetActive_Fin)

subsection \<open>Jumping to an index\<close>

text \<open>
  Claim C7, as amended. With more than one panel, \<^verbatim>\<open>swipeTo(index)\<close> resolves a target for
  every integer index: in loop mode with \<open>index = count\<close> the target is 0 when the active
  index is 0 after the position correction and \<open>count\<close> otherwise; in every other case it is
  the truncated remainder \<open>index % count\<close>, which for \<open>index \<ge> 0\<close> is \<open>index mod count\<close>, within
  \<open>[0, count)\<close>, and for \<open>index < 0\<close> is \<open>- (|index| mod count)\<close>, within \<open>(-count, 0]\<close>. The
  call always goes through, and the move that follows has the pace \<open>targetIndex - active\<close>,
  with notification. (Without loop, at panel size 0 with \<open>minOffset = 0\<close>, the moves store
  \<^verbatim>\<open>NaN\<close>; that case is left out.)
\<close>

theorem swipeTo_target:
  assumes "1 < count s" and "loop p \<or> size_swipe p s \<noteq> 0 \<or> minOffset p s \<noteq> 0"
  shows "\<exists>s1 t s'. correctPosition p s = Some s1 \<and> count s1 = count s
           \<and> targetIndex p index s1 = Some t
           \<and> (loop p \<and> index = count s \<longrightarrow> t = (if active s1 = 0 then 0 else index))
           \<and> (\<not> (loop p \<and> index = count s) \<longrightarrow> t = js_remainder index (count s))
           \<and> (\<not> (loop p \<and> index = count s) \<and> 0 \<le> index \<longrightarrow>
                t = index mod count s \<and> 0 \<le> t \<and> t < count s)
           \<and> (index < 0 \<longrightarrow> t = - ((- index) mod count s) \<and> - count s < t \<and> t \<le> 0)
           \<and> swipeTo p index imm s
               = move p (Fin (t - active s1)) 0 True (if imm then s1 else s1\<lparr>swiping := False\<rparr>)
           \<and> swipeTo p index imm s = Some s'"
proof -
  from correctPosition_total [OF assms(2)] obtain s1 where
    s1: "correctPosition p s = Some s1" "same_frame s s1"
    by blast
  have cs: "count s1 = count s" and sz: "size_swipe p s1 = size_swipe p s"
    and mo: "minOffset p s1 = minOffset p s"
    using same_frame_geom [OF s1(2)] by simp_all
  have pos: "0 < count s" using assms(1) by simp
  define t where "t = (if loop p \<and> index = count s then (if active s1 = 0 then 0 else count s)
                       else js_remainder index (count s))"
  have ti: "targetIndex p index s1 = Some t"
    using targetIndex_resolved [of s1 p index] assms(1) cs by (simp add: t_def)
  let ?s2 = "if imm then s1 else s1\<lparr>swiping := False\<rparr>"
  have eq: "swipeTo p index imm s = move p (Fin (t - active s1)) 0 True ?s2"
    using swipeTo_unfold [OF s1(1) ti] .
  have "loop p \<or> t - active s1 = 0 \<or> size_swipe p ?s2 \<noteq> 0 \<or> minOffset p ?s2 \<noteq> 0"
    using assms(2) sz mo by auto
  from move_total [OF this, of 0 True] obtain s' where
    "move p (Fin (t - active s1)) 0 True ?s2 = Some s'"
    by blast
  with eq have tot: "swipeTo p index imm s = Some s'" by simp
  have special: "loop p \<and> index = count s \<longrightarrow> t = (if active s1 = 0 then 0 else index)"
    by (simp add: t_def)
  have plain: "\<not> (loop p \<and> index = count s) \<longrightarrow> t = js_remainder index (count s)"
    by (auto simp: t_def)
  have r1: "\<not> (loop p \<and> index = count s) \<and> 0 \<le> index \<longrightarrow>
      t = index mod count s \<and> 0 \<le> t \<and> t < count s"
    using js_remainder_range(2,3) [OF pos, of index] by (auto simp: t_def)
  have r2: "index < 0 \<longrightarrow> t = - ((- index) mod count s) \<and> - count s < t \<and> t \<le> 0"
    using js_remainder_range(1,4) [OF pos, of index] pos
    by (auto simp: t_def js_remainder_def)
  from s1(1) cs ti special plain r1 r2 eq tot show ?thesis by blast
qed

theorem swipeTo_target_witness:
  "1 < count (demo_state\<lparr>active := 1\<rparr>) \<and> loop demo_loop
   \<and> map_option active (swipeTo demo_loop 7 False (demo_state\<lparr>active := 1\<rparr>)) = Some 1
   \<and> map_option active (swipeTo demo_loop 3 False (demo_state\<lparr>active := 1\<rparr>)) = Some 3
   \<and> map_option emitted (swipeTo demo_loop 3 False (demo_state\<lparr>active := 1\<rparr>)) = Some [0]"
  using swipeTo_target [of "demo_state\<lparr>active := 1\<rparr>" demo_loop 3 False]
  by (simp add: demo_defs geom_defs fun_defs Let_def swipeTo_def targetIndex_def
      getTargetActive_Fin)

text \<open>
  Claim C7 as stated fails for a negative index: with three panels \<^verbatim>\<open>swipeTo(-1)\<close> resolves
  the target \<open>-1\<close>, not \<open>-1 mod 3 = 2\<close>, and the loop-mode move stores the active index \<open>-1\<close>.
\<close>

theorem swipeTo_target_counterexample:
  "1 < count demo_state
   \<and> targetIndex demo_loop (- 1) demo_state = Some (- 1)
   \<and> (- 1) mod count demo_state = 2
   \<and> map_option active (swipeTo demo_loop (- 1) False demo_state) = Some (- 1)"
  by (simp add: demo_defs geom_defs fun_defs Let_def swipeTo_def targetIndex_def
      getTargetActive_Fin)

subsection \<open>Change notifications\<close>




end
